theory Spec2Isabelle
  imports Complex_Main
begin

section \<open>Python values used by the scripts\<close>

text \<open>
  The scripts are plain Python. Three things of the language matter below:
  \<^item> \<open>int(x)\<close> on a float drops the fractional part, rounding toward zero;
  \<^item> \<open>s[i]\<close> on a string or list counts a negative \<open>i\<close> from the end and raises
    \<open>IndexError\<close> outside the sequence;
  \<^item> \<open>/\<close> is true division on floats. Floats are modelled by the real numbers they
    denote (plus the non-finite values where comparisons are concerned, see \<open>pyfloat\<close>).
\<close>

datatype error = IndexError

definition py_int :: "real \<Rightarrow> int" where
  "py_int v = (if v < 0 then \<lceil>v\<rceil> else \<lfloor>v\<rfloor>)"

definition py_getitem :: "'a list \<Rightarrow> int \<Rightarrow> error + 'a" where
  "py_getitem s i =
     (if 0 \<le> i \<and> i < int (length s) then Inr (s ! nat i)
      else if i < 0 \<and> - int (length s) \<le> i then Inr (s ! nat (int (length s) + i))
      else Inl IndexError)"

section \<open>Intensity to glyph: \<open>pixel_to_ascii\<close> and \<open>convert_to_ascii\<close>\<close>

text \<open>
  \<open>dual_window_ascii.py\<close>, \<open>simple_realtime_ascii.py\<close>, \<open>simple_ascii_converter.py\<close> and
  \<open>test_brightness.py\<close> share the ramp \<open>"@%#*+=-:. "\<close> and the method
  \<^verbatim>\<open>
    def pixel_to_ascii(self, pixel_value):
        ascii_index = int(pixel_value / 255 * (len(self.ascii_chars) - 1))
        return self.ascii_chars[ascii_index]
  \<close>
  The pixel is a \<open>numpy.uint8\<close> read from a grayscale frame, so a natural number; the
  range \<open>[0,255]\<close> is a hypothesis of the theorems that need it. The ramp is the field
  \<open>self.ascii_chars\<close>, a parameter here.
\<close>

definition ascii_chars :: string where
  "ascii_chars = ''@%#*+=-:. ''"

definition ascii_index :: "string \<Rightarrow> nat \<Rightarrow> int" where
  "ascii_index chars pixel_value =
     py_int (real pixel_value / 255 * real_of_int (int (length chars) - 1))"

definition pixel_to_ascii :: "string \<Rightarrow> nat \<Rightarrow> error + char" where
  "pixel_to_ascii chars pixel_value = py_getitem chars (ascii_index chars pixel_value)"

text \<open>
  \<open>realtime_ascii.py\<close>: the settings object \<open>ASCIIVideoProcessor\<close>, with its ramp of
  twelve one-character strings, and the comprehension of \<open>convert_to_ascii\<close>
  \<^verbatim>\<open>
    pixel_data = "".join([self.character_set[pixel_value // 22]
                          for pixel_value in processed_img.getdata()])
  \<close>
  over the pixels of an 8-bit grayscale image. \<open>character_index\<close> is the subscript
  \<open>pixel_value // 22\<close>, \<open>character_of_pixel\<close> one element of the comprehension and
  \<open>pixel_data\<close> the whole of it, failing at the first element that fails.
\<close>

record ascii_video_processor =
  character_set :: string
  char_size :: int
  font_scale :: real
  text_color :: "nat \<times> nat \<times> nat"
  background_color :: nat
  dark_mode :: bool
  brightness_level :: real
  show_help :: bool

definition init_processor :: ascii_video_processor where
  "init_processor =
     \<lparr>character_set = ''@#$%?*+;:,. '', char_size = 5, font_scale = 0.2,
      text_color = (0, 0, 0), background_color = 255, dark_mode = False,
      brightness_level = 1.0, show_help = False\<rparr>"

definition character_index :: "nat \<Rightarrow> int" where
  "character_index pixel_value = int (pixel_value div 22)"

definition character_of_pixel :: "ascii_video_processor \<Rightarrow> nat \<Rightarrow> error + char" where
  "character_of_pixel self pixel_value =
     py_getitem (character_set self) (character_index pixel_value)"

fun pixel_data :: "ascii_video_processor \<Rightarrow> nat list \<Rightarrow> error + string" where
  "pixel_data self [] = Inr []"
| "pixel_data self (pixel_value # rest) =
     (case character_of_pixel self pixel_value of
        Inl e \<Rightarrow> Inl e
      | Inr c \<Rightarrow> (case pixel_data self rest of Inl e \<Rightarrow> Inl e | Inr t \<Rightarrow> Inr (c # t)))"

text \<open>
  The keys of \<open>main\<close> that change a setting (lines 197 to 244). The chain of \<open>elif\<close>
  serves one key per frame, the first one pressed in the chain's order; \<open>q\<close>, \<open>s\<close> and
  \<open>space\<close> quit, save and record, and touch no setting.
\<close>

datatype key = Key_up | Key_down | Key_plus | Key_minus | Key_r | Key_t | Key_h

definition handle_key :: "key \<Rightarrow> ascii_video_processor \<Rightarrow> ascii_video_processor" where
  "handle_key k processor =
     (case k of
        Key_up \<Rightarrow> processor\<lparr>char_size := min 15 (char_size processor + 1)\<rparr>
      | Key_down \<Rightarrow> processor\<lparr>char_size := max 2 (char_size processor - 1)\<rparr>
      | Key_plus \<Rightarrow> processor\<lparr>brightness_level := min 2.0 (brightness_level processor + 0.1)\<rparr>
      | Key_minus \<Rightarrow> processor\<lparr>brightness_level := max 0.3 (brightness_level processor - 0.1)\<rparr>
      | Key_r \<Rightarrow> processor\<lparr>char_size := 5, font_scale := 0.2, brightness_level := 1.0\<rparr>
      | Key_t \<Rightarrow>
          (if \<not> dark_mode processor
           then processor\<lparr>dark_mode := True, background_color := 0,
                  text_color := (255, 255, 255), character_set := rev (character_set processor)\<rparr>
           else processor\<lparr>dark_mode := False, background_color := 255,
                  text_color := (0, 0, 0), character_set := rev (character_set processor)\<rparr>)
      | Key_h \<Rightarrow> processor\<lparr>show_help := \<not> show_help processor\<rparr>)"

subsection \<open>The quantizer as the specification words it\<close>



section \<open>Landmarks\<close>

text \<open>
  A landmark coordinate is a Python float. The classifiers only compare coordinates, and
  a comparison of floats is exact, so a finite float is modelled by the real it denotes;
  the non-finite floats are kept, since \<open><\<close> and \<open>>\<close> are false whenever a side is
  NaN. \<open>flt a b\<close> is Python's \<open>a < b\<close>; \<open>a > b\<close> is \<open>flt b a\<close>.
\<close>

datatype pyfloat = Finite real | PosInf | NegInf | NaN

fun flt :: "pyfloat \<Rightarrow> pyfloat \<Rightarrow> bool" where
  "flt (Finite a) (Finite b) = (a < b)"
| "flt (Finite a) PosInf = True"
| "flt NegInf (Finite b) = True"
| "flt NegInf PosInf = True"
| "flt _ _ = False"

text \<open>
  One point of the landmark provider's output: the fields \<open>.x\<close>, \<open>.y\<close>, \<open>.z\<close>, here
  \<open>lm_x\<close>, \<open>lm_y\<close>, \<open>lm_z\<close>. A hand (\<open>hand_landmarks.landmark\<close>) is the sequence of its
  points; the provider sends 21 of them, and a subscript past the end raises
  \<open>IndexError\<close>. \<open>results.multi_hand_landmarks\<close> is the list of hands, \<open>[]\<close> standing for
  both \<open>None\<close> and no hand (the scripts only test its truth value and iterate it).
\<close>

record landmark =
  lm_x :: pyfloat
  lm_y :: pyfloat
  lm_z :: pyfloat

type_synonym hand = "landmark list"

section \<open>\<open>dual_window_ascii.py\<close>\<close>

datatype gesture = brightness_up | brightness_down | toggle_hands | reset

record dual_window =
  brightness :: real
  contrast :: real
  show_hands :: bool
  gesture_buffer :: "gesture option list"
  buffer_size :: nat

definition init_dual_window :: dual_window where
  "init_dual_window =
     \<lparr>brightness = 1.0, contrast = 1.0, show_hands = True, gesture_buffer = [], buffer_size = 3\<rparr>"

text \<open>
  The body of the loop over the hands in \<open>detect_gestures\<close> (lines 92 to 141). The
  eleven subscripts come first and the largest is 20, so the body raises exactly when
  the hand has fewer than 21 points. Then four separate \<open>if\<close> statements assign
  \<open>current_gesture\<close> one after the other: \<open>g1\<close> to \<open>g4\<close> are its values after each.
\<close>

definition classify_hand :: "hand \<Rightarrow> gesture option \<Rightarrow> error + gesture option" where
  "classify_hand landmarks current_gesture =
     (if length landmarks < 21 then Inl IndexError
      else
        let thumb_tip_y = lm_y (landmarks ! 4);
            thumb_ip_y = lm_y (landmarks ! 3);
            thumb_mcp_y = lm_y (landmarks ! 2);
            index_tip_y = lm_y (landmarks ! 8);
            index_pip_y = lm_y (landmarks ! 6);
            middle_tip_y = lm_y (landmarks ! 12);
            middle_pip_y = lm_y (landmarks ! 10);
            ring_tip_y = lm_y (landmarks ! 16);
            ring_pip_y = lm_y (landmarks ! 14);
            pinky_tip_y = lm_y (landmarks ! 20);
            pinky_pip_y = lm_y (landmarks ! 18);
            thumb_extended_up = (flt thumb_tip_y thumb_ip_y \<and> flt thumb_tip_y thumb_mcp_y);
            other_fingers_down =
              (flt index_pip_y index_tip_y \<and> flt middle_pip_y middle_tip_y \<and>
               flt ring_pip_y ring_tip_y \<and> flt pinky_pip_y pinky_tip_y);
            g1 = (if thumb_extended_up \<and> other_fingers_down then Some brightness_up
                  else current_gesture);
            thumb_extended_down = (flt thumb_ip_y thumb_tip_y \<and> flt thumb_mcp_y thumb_tip_y);
            g2 = (if thumb_extended_down \<and> other_fingers_down then Some brightness_down
                  else g1);
            peace_fingers =
              (flt index_tip_y index_pip_y \<and> flt middle_tip_y middle_pip_y \<and>
               flt ring_pip_y ring_tip_y \<and> flt pinky_pip_y pinky_tip_y);
            g3 = (if peace_fingers then Some toggle_hands else g2);
            all_fingers_down =
              (flt thumb_ip_y thumb_tip_y \<and>
               flt index_pip_y index_tip_y \<and> flt middle_pip_y middle_tip_y \<and>
               flt ring_pip_y ring_tip_y \<and> flt pinky_pip_y pinky_tip_y);
            g4 = (if all_fingers_down then Some reset else g3)
        in Inr g4)"

text \<open>The loop itself: \<open>for hand_landmarks in results.multi_hand_landmarks\<close>.\<close>

fun classify_hands :: "hand list \<Rightarrow> gesture option \<Rightarrow> error + gesture option" where
  "classify_hands [] current_gesture = Inr current_gesture"
| "classify_hands (landmarks # rest) current_gesture =
     (case classify_hand landmarks current_gesture of
        Inl e \<Rightarrow> Inl e
      | Inr g \<Rightarrow> classify_hands rest g)"

text \<open>
  Lines 143 to 154, on the buffer: append, drop the oldest entry when the buffer is
  longer than \<open>buffer_size\<close>, and return the newest entry when the two newest are equal
  and not \<open>None\<close>. \<open>quick_gesture_test.py\<close> has the same lines with three entries in
  place of two (lines 96 to 106), so the count is a parameter, 2 or 3 in the scripts:
  for \<open>n\<close> at least 1, \<open>stable_in n buffer\<close> is
  \<^verbatim>\<open>
    if len(buffer) >= n:
        recent = buffer[-n:]
        if all(g == recent[0] and g is not None for g in recent):
            return recent[0]
    return None
  \<close>
\<close>

definition push_gesture :: "nat \<Rightarrow> 'g option list \<Rightarrow> 'g option \<Rightarrow> 'g option list" where
  "push_gesture cap buffer g =
     (if length (buffer @ [g]) > cap then tl (buffer @ [g]) else buffer @ [g])"

definition stable_in :: "nat \<Rightarrow> 'g option list \<Rightarrow> 'g option" where
  "stable_in n buffer =
     (if length buffer \<ge> n then
        (let recent = drop (length buffer - n) buffer in
         if list_all (\<lambda>g. g = hd recent \<and> g \<noteq> None) recent then hd recent else None)
      else None)"

definition detect_gestures ::
    "dual_window \<Rightarrow> hand list \<Rightarrow> error + (gesture option \<times> dual_window)" where
  "detect_gestures self multi_hand_landmarks =
     (case classify_hands multi_hand_landmarks None of
        Inl e \<Rightarrow> Inl e
      | Inr current_gesture \<Rightarrow>
          (let self' = self\<lparr>gesture_buffer :=
                        push_gesture (buffer_size self) (gesture_buffer self) current_gesture\<rparr>
           in Inr (stable_in 2 (gesture_buffer self'), self')))"

text \<open>
  The gesture branch of \<open>run\<close> (lines 237 to 253). The status line \<open>last_gesture\<close> and
  the printing are display only and left out.
\<close>

definition apply_gesture :: "gesture \<Rightarrow> dual_window \<Rightarrow> dual_window" where
  "apply_gesture gesture self =
     (if gesture = brightness_up then self\<lparr>brightness := min 2.0 (brightness self + 0.2)\<rparr>
      else if gesture = brightness_down then self\<lparr>brightness := max 0.2 (brightness self - 0.2)\<rparr>
      else if gesture = toggle_hands then self\<lparr>show_hands := \<not> show_hands self\<rparr>
      else self\<lparr>brightness := 1.0, contrast := 1.0\<rparr>)"

definition gesture_cooldown :: real where
  "gesture_cooldown = 0.5"

text \<open>
  One pass of the \<open>while\<close> loop of \<open>run\<close>, as far as gestures go (lines 230 to 253): a
  frame is the clock reading \<open>time.time()\<close> and the hands found. The state is the object
  and the local \<open>last_gesture_time\<close>, which starts at 0. The result carries the event
  confirmed in this pass, if any. An uncaught \<open>IndexError\<close> ends the program.
\<close>

type_synonym frame = "real \<times> hand list"

definition run_iteration ::
    "dual_window \<times> real \<Rightarrow> frame \<Rightarrow> error + ((real \<times> gesture) option \<times> dual_window \<times> real)" where
  "run_iteration st fr =
     (let self = fst st; last_gesture_time = snd st;
          current_time = fst fr; multi_hand_landmarks = snd fr
      in if current_time - last_gesture_time > gesture_cooldown then
           (case detect_gestures self multi_hand_landmarks of
              Inl e \<Rightarrow> Inl e
            | Inr (None, self') \<Rightarrow> Inr (None, self', last_gesture_time)
            | Inr (Some gesture, self') \<Rightarrow>
                Inr (Some (current_time, gesture), apply_gesture gesture self', current_time))
         else Inr (None, self, last_gesture_time))"

text \<open>
  The loop over the frames the camera delivers: the events confirmed, in order, and
  either the final state or the error that stopped the program.
\<close>

fun run :: "dual_window \<times> real \<Rightarrow> frame list \<Rightarrow> (real \<times> gesture) list \<times> (error + dual_window \<times> real)" where
  "run st [] = ([], Inr st)"
| "run st (fr # frames) =
     (case run_iteration st fr of
        Inl e \<Rightarrow> ([], Inl e)
      | Inr (None, st') \<Rightarrow> run st' frames
      | Inr (Some ev, st') \<Rightarrow> (ev # fst (run st' frames), snd (run st' frames)))"

section \<open>\<open>quick_gesture_test.py\<close>\<close>

datatype thumb = thumbs_up | thumbs_down

record quick_gesture_test =
  quick_brightness :: real
  quick_buffer :: "thumb option list"
  quick_buffer_size :: nat

definition init_quick :: quick_gesture_test where
  "init_quick = \<lparr>quick_brightness = 1.0, quick_buffer = [], quick_buffer_size = 5\<rparr>"

text \<open>\<open>QuickGestureTest.detect_gesture\<close> (lines 25 to 59).\<close>

definition quick_detect_gesture :: "hand \<Rightarrow> error + thumb option" where
  "quick_detect_gesture landmarks =
     (if landmarks = [] then Inr None
      else if length landmarks < 21 then Inl IndexError
      else
        let thumb_tip_y = lm_y (landmarks ! 4);
            thumb_ip_y = lm_y (landmarks ! 3);
            thumb_mcp_y = lm_y (landmarks ! 2);
            index_tip_y = lm_y (landmarks ! 8);
            index_pip_y = lm_y (landmarks ! 6);
            middle_tip_y = lm_y (landmarks ! 12);
            middle_pip_y = lm_y (landmarks ! 10);
            ring_tip_y = lm_y (landmarks ! 16);
            ring_pip_y = lm_y (landmarks ! 14);
            pinky_tip_y = lm_y (landmarks ! 20);
            pinky_pip_y = lm_y (landmarks ! 18);
            thumb_up = (flt thumb_tip_y thumb_ip_y \<and> flt thumb_tip_y thumb_mcp_y);
            thumb_down = (flt thumb_ip_y thumb_tip_y \<and> flt thumb_mcp_y thumb_tip_y);
            other_fingers_down =
              (flt index_pip_y index_tip_y \<and> flt middle_pip_y middle_tip_y \<and>
               flt ring_pip_y ring_tip_y \<and> flt pinky_pip_y pinky_tip_y)
        in Inr (if thumb_up \<and> other_fingers_down then Some thumbs_up
                else if thumb_down \<and> other_fingers_down then Some thumbs_down
                else None))"

text \<open>The loop over the hands in \<open>run\<close> (lines 87 to 94): each hand overwrites.\<close>

fun quick_current_gesture :: "hand list \<Rightarrow> thumb option \<Rightarrow> error + thumb option" where
  "quick_current_gesture [] current_gesture = Inr current_gesture"
| "quick_current_gesture (landmarks # rest) current_gesture =
     (case quick_detect_gesture landmarks of
        Inl e \<Rightarrow> Inl e
      | Inr g \<Rightarrow> quick_current_gesture rest g)"

text \<open>One pass of the \<open>while\<close> loop of \<open>run\<close> (lines 84 to 117).\<close>

definition quick_iteration ::
    "quick_gesture_test \<times> real \<Rightarrow> frame \<Rightarrow>
     error + ((real \<times> thumb) option \<times> quick_gesture_test \<times> real)" where
  "quick_iteration st fr =
     (let self = fst st; last_gesture_time = snd st; current_time = fst fr
      in case quick_current_gesture (snd fr) None of
           Inl e \<Rightarrow> Inl e
         | Inr current_gesture \<Rightarrow>
             (let self' = self\<lparr>quick_buffer :=
                      push_gesture (quick_buffer_size self) (quick_buffer self) current_gesture\<rparr>;
                  stable_gesture = stable_in 3 (quick_buffer self')
              in case stable_gesture of
                   None \<Rightarrow> Inr (None, self', last_gesture_time)
                 | Some g \<Rightarrow>
                     if current_time - last_gesture_time > 1.0 then
                       (if g = thumbs_up then
                          Inr (Some (current_time, g),
                               self'\<lparr>quick_brightness := min 2.0 (quick_brightness self' + 0.2)\<rparr>,
                               current_time)
                        else
                          Inr (Some (current_time, g),
                               self'\<lparr>quick_brightness := max 0.2 (quick_brightness self' - 0.2)\<rparr>,
                               current_time))
                     else Inr (None, self', last_gesture_time)))"

fun quick_run ::
    "quick_gesture_test \<times> real \<Rightarrow> frame list \<Rightarrow>
     (real \<times> thumb) list \<times> (error + quick_gesture_test \<times> real)" where
  "quick_run st [] = ([], Inr st)"
| "quick_run st (fr # frames) =
     (case quick_iteration st fr of
        Inl e \<Rightarrow> ([], Inl e)
      | Inr (None, st') \<Rightarrow> quick_run st' frames
      | Inr (Some ev, st') \<Rightarrow> (ev # fst (quick_run st' frames), snd (quick_run st' frames)))"

section \<open>\<open>gesture_only.py\<close>\<close>

text \<open>
  \<open>SimpleGestureControl\<close> has no buffer: the only field is \<open>brightness\<close>, so the state of
  \<open>run\<close> is the pair of \<open>brightness\<close> and \<open>last_gesture_time\<close>. The two predicates read
  points 4, 3, 0, 8 and 6.
\<close>

definition is_thumb_up :: "hand \<Rightarrow> error + bool" where
  "is_thumb_up landmarks =
     (if length landmarks < 9 then Inl IndexError
      else
        let thumb_tip_y = lm_y (landmarks ! 4);
            thumb_ip_y = lm_y (landmarks ! 3);
            wrist_y = lm_y (landmarks ! 0);
            index_tip_y = lm_y (landmarks ! 8);
            index_pip_y = lm_y (landmarks ! 6)
        in Inr (flt thumb_tip_y thumb_ip_y \<and> flt thumb_tip_y wrist_y \<and>
                flt index_pip_y index_tip_y))"

definition is_thumb_down :: "hand \<Rightarrow> error + bool" where
  "is_thumb_down landmarks =
     (if length landmarks < 9 then Inl IndexError
      else
        let thumb_tip_y = lm_y (landmarks ! 4);
            thumb_ip_y = lm_y (landmarks ! 3);
            wrist_y = lm_y (landmarks ! 0);
            index_tip_y = lm_y (landmarks ! 8);
            index_pip_y = lm_y (landmarks ! 6)
        in Inr (flt thumb_ip_y thumb_tip_y \<and> flt wrist_y thumb_tip_y \<and>
                flt index_pip_y index_tip_y))"

text \<open>
  The loop over the hands of one frame (lines 72 to 90), with the cooldown test inside
  it, and the loop over the frames.
\<close>

fun control_hands ::
    "real \<Rightarrow> hand list \<Rightarrow> real \<times> real \<Rightarrow> (real \<times> thumb) list \<times> (error + real \<times> real)" where
  "control_hands current_time [] st = ([], Inr st)"
| "control_hands current_time (landmarks # rest) st =
     (if current_time - snd st > 1.0 then
        (case is_thumb_up landmarks of
           Inl e \<Rightarrow> ([], Inl e)
         | Inr True \<Rightarrow>
             ((current_time, thumbs_up) #
                fst (control_hands current_time rest (min 2.0 (fst st + 0.2), current_time)),
              snd (control_hands current_time rest (min 2.0 (fst st + 0.2), current_time)))
         | Inr False \<Rightarrow>
             (case is_thumb_down landmarks of
                Inl e \<Rightarrow> ([], Inl e)
              | Inr True \<Rightarrow>
                  ((current_time, thumbs_down) #
                     fst (control_hands current_time rest (max 0.2 (fst st - 0.2), current_time)),
                   snd (control_hands current_time rest (max 0.2 (fst st - 0.2), current_time)))
              | Inr False \<Rightarrow> control_hands current_time rest st))
      else control_hands current_time rest st)"

fun control_run ::
    "real \<times> real \<Rightarrow> frame list \<Rightarrow> (real \<times> thumb) list \<times> (error + real \<times> real)" where
  "control_run st [] = ([], Inr st)"
| "control_run st (fr # frames) =
     (case control_hands (fst fr) (snd fr) st of
        (evs, Inl e) \<Rightarrow> (evs, Inl e)
      | (evs, Inr st') \<Rightarrow> (evs @ fst (control_run st' frames), snd (control_run st' frames)))"

section \<open>\<open>debug_gestures.py\<close>\<close>

text \<open>
  Here \<open>run\<close> turns every point into a pair of integer pixel coordinates
  \<open>[int(lm.x * w), int(lm.y * h)]\<close> before \<open>analyze_hand\<close> sees it; \<open>p[1]\<close> is the second
  component. \<open>analyze_hand\<close> returns a dictionary of eight booleans, a record here, and
  \<open>detect_gesture\<close> returns at the first rule that matches. Its result strings are the
  labels below (the pictographs of the source's strings dropped).
\<close>

record finger_states =
  thumb_up :: bool
  thumb_down :: bool
  index_up :: bool
  middle_up :: bool
  ring_up :: bool
  pinky_up :: bool
  thumb_above_mcp :: bool
  thumb_below_mcp :: bool

definition analyze_hand :: "(int \<times> int) list \<Rightarrow> error + finger_states" where
  "analyze_hand landmarks =
     (if length landmarks < 21 then Inl IndexError
      else
        let thumb_tip = landmarks ! 4;
            thumb_ip = landmarks ! 3;
            thumb_mcp = landmarks ! 2;
            index_tip = landmarks ! 8;
            index_pip = landmarks ! 6;
            middle_tip = landmarks ! 12;
            middle_pip = landmarks ! 10;
            ring_tip = landmarks ! 16;
            ring_pip = landmarks ! 14;
            pinky_tip = landmarks ! 20;
            pinky_pip = landmarks ! 18
        in Inr \<lparr>thumb_up = snd thumb_tip < snd thumb_ip,
                thumb_down = snd thumb_tip > snd thumb_ip,
                index_up = snd index_tip < snd index_pip,
                middle_up = snd middle_tip < snd middle_pip,
                ring_up = snd ring_tip < snd ring_pip,
                pinky_up = snd pinky_tip < snd pinky_pip,
                thumb_above_mcp = snd thumb_tip < snd thumb_mcp,
                thumb_below_mcp = snd thumb_tip > snd thumb_mcp\<rparr>)"

datatype label =
  No_hand_detected | THUMBS_UP | THUMBS_DOWN | PEACE_SIGN | FIST | Unknown_gesture

definition debug_detect_gesture :: "finger_states option \<Rightarrow> label" where
  "debug_detect_gesture finger_states =
     (case finger_states of
        None \<Rightarrow> No_hand_detected
      | Some fs \<Rightarrow>
          if thumb_up fs \<and> thumb_above_mcp fs \<and>
             \<not> index_up fs \<and> \<not> middle_up fs \<and> \<not> ring_up fs \<and> \<not> pinky_up fs
          then THUMBS_UP
          else if thumb_down fs \<and> thumb_below_mcp fs \<and>
             \<not> index_up fs \<and> \<not> middle_up fs \<and> \<not> ring_up fs \<and> \<not> pinky_up fs
          then THUMBS_DOWN
          else if index_up fs \<and> middle_up fs \<and> \<not> ring_up fs \<and> \<not> pinky_up fs
          then PEACE_SIGN
          else if \<not> thumb_up fs \<and> \<not> index_up fs \<and> \<not> middle_up fs \<and>
             \<not> ring_up fs \<and> \<not> pinky_up fs
          then FIST
          else Unknown_gesture)"

text \<open>What \<open>run\<close> shows for one hand: \<open>detect_gesture(analyze_hand(landmarks))\<close>.\<close>

definition debug_gesture :: "(int \<times> int) list \<Rightarrow> error + label" where
  "debug_gesture landmarks =
     (case analyze_hand landmarks of
        Inl e \<Rightarrow> Inl e
      | Inr fs \<Rightarrow> Inr (debug_detect_gesture (Some fs)))"

section \<open>Sample inputs\<close>

text \<open>
  Hands for the concrete evaluations below. Only the \<open>y\<close> of points 2, 3, 4 (thumb MCP,
  IP, tip), 6, 8 (index PIP, tip), 10, 12 (middle), 14, 16 (ring), 18, 20 (pinky) and 0
  (wrist) is ever read; every value is a binary fraction, so it is a float exactly.
  \<open>y\<close> grows downward: a smaller \<open>y\<close> is higher in the picture.
\<close>

definition hand_of_ys :: "real list \<Rightarrow> hand" where
  "hand_of_ys ys = map (\<lambda>v. \<lparr>lm_x = Finite 0.5, lm_y = Finite v, lm_z = Finite 0\<rparr>) ys"

definition thumbs_up_hand :: hand where
  "thumbs_up_hand = hand_of_ys
     [0.5, 0.5, 0.75, 0.5, 0.25,  0.5, 0.5, 0.5, 0.75,  0.5, 0.5, 0.5, 0.75,
      0.5, 0.5, 0.5, 0.75,  0.5, 0.5, 0.5, 0.75]"

definition thumbs_down_hand :: hand where
  "thumbs_down_hand = hand_of_ys
     [0.5, 0.5, 0.25, 0.5, 0.75,  0.5, 0.5, 0.5, 0.75,  0.5, 0.5, 0.5, 0.75,
      0.5, 0.5, 0.5, 0.75,  0.5, 0.5, 0.5, 0.75]"

definition peace_hand :: hand where
  "peace_hand = hand_of_ys
     [0.5, 0.5, 0.5, 0.5, 0.5,  0.5, 0.5, 0.5, 0.25,  0.5, 0.5, 0.5, 0.25,
      0.5, 0.5, 0.5, 0.75,  0.5, 0.5, 0.5, 0.75]"

definition fist_hand :: hand where
  "fist_hand = hand_of_ys
     [0.5, 0.5, 0.875, 0.5, 0.75,  0.5, 0.5, 0.5, 0.75,  0.5, 0.5, 0.5, 0.75,
      0.5, 0.5, 0.5, 0.75,  0.5, 0.5, 0.5, 0.75]"



text \<open>
  The same for \<open>debug_gestures.py\<close>, in pixels of a 640 by 480 picture; the second list
  has points above (\<open>-240\<close>) and below (\<open>720\<close>) the picture.
\<close>

definition pixels_of_ys :: "int list \<Rightarrow> (int \<times> int) list" where
  "pixels_of_ys ys = map (\<lambda>v. (320, v)) ys"

definition thumbs_down_pixels :: "(int \<times> int) list" where
  "thumbs_down_pixels = pixels_of_ys
     [240, 240, 120, 240, 360,  240, 240, 240, 360,  240, 240, 240, 360,
      240, 240, 240, 360,  240, 240, 240, 360]"


section \<open>Events spaced in time\<close>

text \<open>
  \<open>spaced d t0 evs\<close>: in the list of timed events \<open>evs\<close>, the first comes more than \<open>d\<close>
  after \<open>t0\<close> and each later one more than \<open>d\<close> after the one before it. It is the
  invariant of the three \<open>run\<close> loops, with \<open>t0\<close> the value of \<open>last_gesture_time\<close>.
\<close>

fun spaced :: "real \<Rightarrow> real \<Rightarrow> (real \<times> 'a) list \<Rightarrow> bool" where
  "spaced d t0 [] = True"
| "spaced d t0 (ev # evs) = (fst ev - t0 > d \<and> spaced d (fst ev) evs)"

section \<open>The quantizers\<close>

text \<open>
  The float expression of \<open>pixel_to_ascii\<close> in integers. \<open>pixel_value / 255 * (M - 1)\<close>
  is computed in double precision; the exact quotient \<open>pixel_value * (M - 1) / 255\<close> is
  either an integer or at least \<open>1/255\<close> away from one, far more than the rounding
  error, so truncating the float and truncating the exact value agree.
\<close>

lemma py_int_of_nat_div: "py_int (real a / real b) = int (a div b)"
proof -
  have "\<not> real a / real b < 0" by (simp add: not_less)
  then show ?thesis by (simp add: py_int_def floor_divide_of_nat_eq)
qed

lemma ascii_index_div:
  assumes "chars \<noteq> []"
  shows "ascii_index chars p = int (p * (length chars - 1) div 255)"
proof -
  obtain n where n: "length chars = Suc n"
    using assms by (cases chars) simp_all
  have "real p / 255 * real_of_int (int (Suc n) - 1) = real (p * n) / real 255"
    by simp
  then have "ascii_index chars p = py_int (real (p * n) / real 255)"
    unfolding ascii_index_def n by (rule arg_cong)
  then show ?thesis
    by (simp only: py_int_of_nat_div n diff_Suc_1)
qed

lemma scaled_index_le:
  assumes "p \<le> 255"
  shows "p * n div 255 \<le> (n::nat)"
proof -
  have "p * n \<le> 255 * n" using assms by (rule mult_le_mono1)
  then have "p * n div 255 \<le> 255 * n div 255" by (rule div_le_mono)
  then show ?thesis by simp
qed

lemma py_getitem_nat: "i < length s \<Longrightarrow> py_getitem s (int i) = Inr (s ! i)"
  by (simp add: py_getitem_def)

lemma pixel_to_ascii_nth:
  assumes "p \<le> 255" "chars \<noteq> []"
  shows "pixel_to_ascii chars p = Inr (chars ! (p * (length chars - 1) div 255))"
proof -
  have "p * (length chars - 1) div 255 \<le> length chars - 1"
    using assms(1) by (rule scaled_index_le)
  moreover have "0 < length chars" using assms(2) by simp
  ultimately have "p * (length chars - 1) div 255 < length chars" by linarith
  then show ?thesis
    unfolding pixel_to_ascii_def ascii_index_div [OF assms(2)] by (rule py_getitem_nat)
qed

lemma ascii_index_mono:
  assumes "p1 \<le> p2" "chars \<noteq> []"
  shows "ascii_index chars p1 \<le> ascii_index chars p2"
proof -
  have "p1 * (length chars - 1) \<le> p2 * (length chars - 1)"
    using assms(1) by (rule mult_le_mono1)
  then have "p1 * (length chars - 1) div 255 \<le> p2 * (length chars - 1) div 255"
    by (rule div_le_mono)
  then show ?thesis by (simp add: ascii_index_div [OF assms(2)])
qed

lemma length_ascii_chars: "length ascii_chars = 10"
  by (simp add: ascii_chars_def)

lemma ascii_chars_nonempty: "ascii_chars \<noteq> []"
  by (simp add: ascii_chars_def)

text \<open>No key changes the length of the ramp: the theme key only reverses it.\<close>

lemma handle_key_length: "length (character_set (handle_key k p)) = length (character_set p)"
  by (cases k) (simp_all add: handle_key_def)

lemma fold_handle_key_length:
  "length (character_set (fold handle_key ks p)) = length (character_set p)"
  by (induction ks arbitrary: p) (simp_all add: handle_key_length)

lemma length_character_set: "length (character_set (fold handle_key ks init_processor)) = 12"
  by (simp add: fold_handle_key_length init_processor_def)

lemma character_of_pixel_nth:
  assumes "p \<le> 255" "length (character_set self) = 12"
  shows "character_of_pixel self p = Inr (character_set self ! (p div 22))"
proof -
  have "p div 22 < length (character_set self)" using assms by simp
  then show ?thesis
    unfolding character_of_pixel_def character_index_def by (rule py_getitem_nat)
qed




text \<open>
  Claim C8. Both quantizers are monotonic: of two pixel values, the smaller never gets
  the larger ramp index, for the ten-symbol ramp of \<open>pixel_to_ascii\<close> and for the
  subscript \<open>pixel_value // 22\<close> of \<open>convert_to_ascii\<close>.
\<close>

theorem quantizer_monotonic:
  assumes "pixel1 < pixel2"
  shows "ascii_index ascii_chars pixel1 \<le> ascii_index ascii_chars pixel2
       \<and> character_index pixel1 \<le> character_index pixel2"
proof
  from assms have "pixel1 \<le> pixel2" by simp
  then show "ascii_index ascii_chars pixel1 \<le> ascii_index ascii_chars pixel2"
    using ascii_chars_nonempty by (rule ascii_index_mono)
  from assms have "pixel1 div 22 \<le> pixel2 div 22" by (simp add: div_le_mono)
  then show "character_index pixel1 \<le> character_index pixel2"
    by (simp add: character_index_def)
qed

theorem quantizer_monotonic_witness:
  "ascii_index ascii_chars 28 \<le> ascii_index ascii_chars 29
   \<and> ascii_index ascii_chars 28 = 0 \<and> ascii_index ascii_chars 29 = 1
   \<and> character_index 21 \<le> character_index 22"
  using quantizer_monotonic [of 28 29] quantizer_monotonic [of 21 22]
  by (simp add: ascii_index_div ascii_chars_nonempty length_ascii_chars)

text \<open>
  Claim C10. For every pixel value in \<open>[0,255]\<close> the index of either quantizer lies in
  \<open>[0, M - 1]\<close>, so the subscript never raises: \<open>int(pixel / 255 * 9)\<close> for the
  ten-symbol ramp, and \<open>pixel // 22\<close> for the twelve-symbol ramp in whatever state the
  keys have left it (the theme key reverses the ramp). \<open>255 // 22\<close> is 11.
\<close>

theorem ramp_index_in_bounds:
  assumes "pixel_value \<le> 255"
  shows "0 \<le> ascii_index ascii_chars pixel_value
       \<and> ascii_index ascii_chars pixel_value \<le> int (length ascii_chars) - 1
       \<and> (\<exists>c. pixel_to_ascii ascii_chars pixel_value = Inr c)
       \<and> 0 \<le> character_index pixel_value
       \<and> character_index pixel_value
           \<le> int (length (character_set (fold handle_key keys init_processor))) - 1
       \<and> (\<exists>c. character_of_pixel (fold handle_key keys init_processor) pixel_value = Inr c)
       \<and> character_index 255 = 11"
proof -
  have a: "0 \<le> ascii_index ascii_chars pixel_value"
    by (simp add: ascii_index_div ascii_chars_nonempty)
  have "pixel_value * (length ascii_chars - 1) div 255 \<le> length ascii_chars - 1"
    using assms by (rule scaled_index_le)
  then have b: "ascii_index ascii_chars pixel_value \<le> int (length ascii_chars) - 1"
    by (simp add: ascii_index_div ascii_chars_nonempty length_ascii_chars)
  have c: "\<exists>c. pixel_to_ascii ascii_chars pixel_value = Inr c"
    using pixel_to_ascii_nth [OF assms ascii_chars_nonempty] by blast
  have d: "0 \<le> character_index pixel_value"
    by (simp add: character_index_def)
  have e: "character_index pixel_value
      \<le> int (length (character_set (fold handle_key keys init_processor))) - 1"
    using assms by (simp add: character_index_def length_character_set)
  have f: "\<exists>c. character_of_pixel (fold handle_key keys init_processor) pixel_value = Inr c"
    using character_of_pixel_nth [OF assms length_character_set] by blast
  have g: "character_index 255 = 11"
    by (simp add: character_index_def)
  from a b c d e f g show ?thesis by (intro conjI)
qed

theorem ramp_index_in_bounds_witness:
  "ascii_index ascii_chars 255 = 9
   \<and> pixel_to_ascii ascii_chars 255 = Inr CHR '' ''
   \<and> character_of_pixel (fold handle_key [Key_t] init_processor) 255 = Inr CHR ''@''"
  using ramp_index_in_bounds [of 255 "[Key_t]"]
  by (simp add: ascii_index_div pixel_to_ascii_nth ascii_chars_nonempty length_ascii_chars
      character_of_pixel_nth handle_key_def init_processor_def)
     (simp add: ascii_chars_def)

section \<open>The classifiers\<close>

lemma flt_asym: "flt a b \<Longrightarrow> \<not> flt b a"
  by (cases a; cases b) simp_all

lemma flt_trans: "flt a b \<Longrightarrow> flt b c \<Longrightarrow> flt a c"
  by (cases a; cases b; cases c) simp_all

lemma flt_NaN_left [simp]: "\<not> flt NaN b"
  by (cases b) simp_all

lemma flt_NaN_right [simp]: "\<not> flt a NaN"
  by (cases a) simp_all

lemma classify_hand_thumbs_up:
  assumes "21 \<le> length landmarks"
    and "flt (lm_y (landmarks ! 4)) (lm_y (landmarks ! 3))"
    and "flt (lm_y (landmarks ! 3)) (lm_y (landmarks ! 2))"
    and "flt (lm_y (landmarks ! 6)) (lm_y (landmarks ! 8))"
    and "flt (lm_y (landmarks ! 10)) (lm_y (landmarks ! 12))"
    and "flt (lm_y (landmarks ! 14)) (lm_y (landmarks ! 16))"
    and "flt (lm_y (landmarks ! 18)) (lm_y (landmarks ! 20))"
  shows "classify_hand landmarks current_gesture = Inr (Some brightness_up)"
proof -
  have mcp: "flt (lm_y (landmarks ! 4)) (lm_y (landmarks ! 2))"
    using assms(2,3) by (rule flt_trans)
  have no_down: "\<not> flt (lm_y (landmarks ! 3)) (lm_y (landmarks ! 4))"
    using assms(2) by (rule flt_asym)
  have no_peace: "\<not> flt (lm_y (landmarks ! 8)) (lm_y (landmarks ! 6))"
    using assms(4) by (rule flt_asym)
  show ?thesis
    using assms mcp no_down no_peace by (simp add: classify_hand_def Let_def)
qed

lemma quick_detect_thumbs_up:
  assumes "21 \<le> length landmarks"
    and "flt (lm_y (landmarks ! 4)) (lm_y (landmarks ! 3))"
    and "flt (lm_y (landmarks ! 3)) (lm_y (landmarks ! 2))"
    and "flt (lm_y (landmarks ! 6)) (lm_y (landmarks ! 8))"
    and "flt (lm_y (landmarks ! 10)) (lm_y (landmarks ! 12))"
    and "flt (lm_y (landmarks ! 14)) (lm_y (landmarks ! 16))"
    and "flt (lm_y (landmarks ! 18)) (lm_y (landmarks ! 20))"
  shows "quick_detect_gesture landmarks = Inr (Some thumbs_up)"
proof -
  have mcp: "flt (lm_y (landmarks ! 4)) (lm_y (landmarks ! 2))"
    using assms(2,3) by (rule flt_trans)
  have "landmarks \<noteq> []" using assms(1) by auto
  then show ?thesis
    using assms mcp by (simp add: quick_detect_gesture_def Let_def)
qed

lemma debug_gesture_thumbs_up:
  assumes "21 \<le> length pts"
    and "snd (pts ! 4) < snd (pts ! 3)"
    and "snd (pts ! 3) < snd (pts ! 2)"
    and "snd (pts ! 6) < snd (pts ! 8)"
    and "snd (pts ! 10) < snd (pts ! 12)"
    and "snd (pts ! 14) < snd (pts ! 16)"
    and "snd (pts ! 18) < snd (pts ! 20)"
  shows "debug_gesture pts = Inr THUMBS_UP"
  using assms by (simp add: debug_gesture_def analyze_hand_def debug_detect_gesture_def Let_def)

lemma classify_thumbs_up_hand:
  "classify_hands [thumbs_up_hand] None = Inr (Some brightness_up)"
  by (simp add: classify_hand_def thumbs_up_hand_def hand_of_ys_def)

lemma classify_peace_hand: "classify_hands [peace_hand] None = Inr (Some toggle_hands)"
  by (simp add: classify_hand_def peace_hand_def hand_of_ys_def)

lemma classify_fist_hand: "classify_hands [fist_hand] None = Inr (Some reset)"
  by (simp add: classify_hand_def fist_hand_def hand_of_ys_def)

lemma quick_thumbs_up_hand:
  "quick_current_gesture [thumbs_up_hand] None = Inr (Some thumbs_up)"
  by (simp add: quick_detect_gesture_def thumbs_up_hand_def hand_of_ys_def)

text \<open>
  Claim C7. A hand of 21 points whose thumb tip is above its IP joint, itself above the
  MCP joint (\<open>y\<close> tip < \<open>y\<close> IP < \<open>y\<close> MCP), and whose four other finger tips are below
  their PIP joints, is classified thumbs-up: \<open>brightness_up\<close> by the loop body of
  \<open>detect_gestures\<close> in \<open>dual_window_ascii.py\<close> (whatever \<open>current_gesture\<close> held) and
  by the loop over a single hand, \<open>thumbs_up\<close> by \<open>quick_gesture_test.py\<close>, and, on pixel
  coordinates, \<open>THUMBS UP\<close> by \<open>debug_gestures.py\<close>.
\<close>

theorem thumbs_up_classified:
  "(21 \<le> length landmarks
      \<and> flt (lm_y (landmarks ! 4)) (lm_y (landmarks ! 3))
      \<and> flt (lm_y (landmarks ! 3)) (lm_y (landmarks ! 2))
      \<and> flt (lm_y (landmarks ! 6)) (lm_y (landmarks ! 8))
      \<and> flt (lm_y (landmarks ! 10)) (lm_y (landmarks ! 12))
      \<and> flt (lm_y (landmarks ! 14)) (lm_y (landmarks ! 16))
      \<and> flt (lm_y (landmarks ! 18)) (lm_y (landmarks ! 20))
    \<longrightarrow> classify_hand landmarks current_gesture = Inr (Some brightness_up)
      \<and> classify_hands [landmarks] None = Inr (Some brightness_up)
      \<and> quick_detect_gesture landmarks = Inr (Some thumbs_up))
   \<and> (21 \<le> length pts
      \<and> snd (pts ! 4) < snd (pts ! 3)
      \<and> snd (pts ! 3) < snd (pts ! 2)
      \<and> snd (pts ! 6) < snd (pts ! 8)
      \<and> snd (pts ! 10) < snd (pts ! 12)
      \<and> snd (pts ! 14) < snd (pts ! 16)
      \<and> snd (pts ! 18) < snd (pts ! 20)
    \<longrightarrow> debug_gesture pts = Inr THUMBS_UP)"
proof (intro conjI impI)
  assume h: "21 \<le> length landmarks
      \<and> flt (lm_y (landmarks ! 4)) (lm_y (landmarks ! 3))
      \<and> flt (lm_y (landmarks ! 3)) (lm_y (landmarks ! 2))
      \<and> flt (lm_y (landmarks ! 6)) (lm_y (landmarks ! 8))
      \<and> flt (lm_y (landmarks ! 10)) (lm_y (landmarks ! 12))
      \<and> flt (lm_y (landmarks ! 14)) (lm_y (landmarks ! 16))
      \<and> flt (lm_y (landmarks ! 18)) (lm_y (landmarks ! 20))"
  then show "classify_hand landmarks current_gesture = Inr (Some brightness_up)"
    by (intro classify_hand_thumbs_up) simp_all
  from h have "classify_hand landmarks None = Inr (Some brightness_up)"
    by (intro classify_hand_thumbs_up) simp_all
  then show "classify_hands [landmarks] None = Inr (Some brightness_up)"
    by simp
  from h show "quick_detect_gesture landmarks = Inr (Some thumbs_up)"
    by (intro quick_detect_thumbs_up) simp_all
next
  assume "21 \<le> length pts
      \<and> snd (pts ! 4) < snd (pts ! 3)
      \<and> snd (pts ! 3) < snd (pts ! 2)
      \<and> snd (pts ! 6) < snd (pts ! 8)
      \<and> snd (pts ! 10) < snd (pts ! 12)
      \<and> snd (pts ! 14) < snd (pts ! 16)
      \<and> snd (pts ! 18) < snd (pts ! 20)"
  then show "debug_gesture pts = Inr THUMBS_UP"
    by (intro debug_gesture_thumbs_up) simp_all
qed

theorem thumbs_up_classified_witness:
  "classify_hand thumbs_up_hand (Some reset) = Inr (Some brightness_up)
   \<and> classify_hands [thumbs_up_hand] None = Inr (Some brightness_up)
   \<and> quick_detect_gesture thumbs_up_hand = Inr (Some thumbs_up)
   \<and> debug_gesture (pixels_of_ys [240, 240, 360, 240, 120,  240, 240, 240, 360,
        240, 240, 240, 360,  240, 240, 240, 360,  240, 240, 240, 360]) = Inr THUMBS_UP"
  using thumbs_up_classified [of thumbs_up_hand "Some reset"
      "pixels_of_ys [240, 240, 360, 240, 120,  240, 240, 240, 360,
        240, 240, 240, 360,  240, 240, 240, 360,  240, 240, 240, 360]"]
  by (simp add: thumbs_up_hand_def hand_of_ys_def pixels_of_ys_def)

text \<open>
  In \<open>dual_window_ascii.py\<close> the four rules are four separate \<open>if\<close> statements, so a later
  rule overwrites an earlier one. A thumb pointing down with the four fingers curled
  satisfies the fist rule as well (it only asks the thumb tip to be below the IP
  joint), so \<open>brightness_down\<close> is never what the loop body leaves in
  \<open>current_gesture\<close>, unless it was there before.
\<close>

lemma classify_hand_never_brightness_down:
  assumes "classify_hand landmarks current_gesture = Inr (Some brightness_down)"
  shows "current_gesture = Some brightness_down"
  using assms by (simp add: classify_hand_def Let_def split: if_splits)

text \<open>
  Claim C2, evaluated at a hand whose thumb points down (tip below IP and MCP) and whose
  four fingers are curled (tips below their PIP joints). \<open>dual_window_ascii.py\<close> answers
  \<open>reset\<close>, the fist, where the claim says thumbs-down; \<open>quick_gesture_test.py\<close> and
  \<open>debug_gestures.py\<close>, which stop at the first rule that matches, answer thumbs-down.
\<close>

theorem thumbs_down_hand_classified_reset:
  "classify_hands [thumbs_down_hand] None = Inr (Some reset)
   \<and> quick_detect_gesture thumbs_down_hand = Inr (Some thumbs_down)
   \<and> debug_gesture thumbs_down_pixels = Inr THUMBS_DOWN"
proof (intro conjI)
  show "classify_hands [thumbs_down_hand] None = Inr (Some reset)"
    by (simp add: classify_hand_def thumbs_down_hand_def hand_of_ys_def)
  show "quick_detect_gesture thumbs_down_hand = Inr (Some thumbs_down)"
    by (simp add: quick_detect_gesture_def thumbs_down_hand_def hand_of_ys_def)
  show "debug_gesture thumbs_down_pixels = Inr THUMBS_DOWN"
    by (simp add: debug_gesture_def analyze_hand_def debug_detect_gesture_def
        thumbs_down_pixels_def pixels_of_ys_def)
qed




section \<open>Brightness\<close>

lemma apply_gesture_range:
  assumes "0.2 \<le> brightness self" "brightness self \<le> 2.0"
  shows "0.2 \<le> brightness (apply_gesture g self) \<and> brightness (apply_gesture g self) \<le> 2.0"
  using assms by (cases g) (simp_all add: apply_gesture_def)

lemma fold_apply_gesture_range:
  "0.2 \<le> brightness self \<Longrightarrow> brightness self \<le> 2.0 \<Longrightarrow>
     0.2 \<le> brightness (fold apply_gesture gs self)
     \<and> brightness (fold apply_gesture gs self) \<le> 2.0"
proof (induction gs arbitrary: self)
  case Nil
  then show ?case by simp
next
  case (Cons g gs)
  from apply_gesture_range [OF Cons.prems, of g] Cons.IH [of "apply_gesture g self"]
  show ?case by simp
qed

lemma handle_key_range:
  assumes "0.3 \<le> brightness_level p" "brightness_level p \<le> 2.0"
  shows "0.3 \<le> brightness_level (handle_key k p) \<and> brightness_level (handle_key k p) \<le> 2.0"
  using assms by (cases k) (simp_all add: handle_key_def)

lemma fold_handle_key_range:
  "0.3 \<le> brightness_level p \<Longrightarrow> brightness_level p \<le> 2.0 \<Longrightarrow>
     0.3 \<le> brightness_level (fold handle_key ks p)
     \<and> brightness_level (fold handle_key ks p) \<le> 2.0"
proof (induction ks arbitrary: p)
  case Nil
  then show ?case by simp
next
  case (Cons k ks)
  from handle_key_range [OF Cons.prems, of k] Cons.IH [of "handle_key k p"]
  show ?case by simp
qed

text \<open>
  Claim C3. Whatever gesture events are confirmed, in whatever number and order, the
  brightness of \<open>dual_window_ascii.py\<close> stays in \<open>[0.2, 2.0]\<close>, starting from the
  initial object; so does the brightness of \<open>realtime_ascii.py\<close> under any sequence of
  its keys (it stays in \<open>[0.3, 2.0]\<close>, that script's lower clamp being 0.3). The
  arithmetic is on reals; on floats the bounds hold as well, \<open>min\<close> and \<open>max\<close> being
  exact and rounding monotone.
\<close>

theorem brightness_stays_clamped:
  "0.2 \<le> brightness (fold apply_gesture gestures init_dual_window)
   \<and> brightness (fold apply_gesture gestures init_dual_window) \<le> 2.0
   \<and> 0.2 \<le> brightness_level (fold handle_key keys init_processor)
   \<and> brightness_level (fold handle_key keys init_processor) \<le> 2.0"
proof -
  have "0.2 \<le> brightness init_dual_window" "brightness init_dual_window \<le> 2.0"
    by (simp_all add: init_dual_window_def)
  then have a: "0.2 \<le> brightness (fold apply_gesture gestures init_dual_window)
      \<and> brightness (fold apply_gesture gestures init_dual_window) \<le> 2.0"
    by (rule fold_apply_gesture_range)
  have "0.3 \<le> brightness_level init_processor" "brightness_level init_processor \<le> 2.0"
    by (simp_all add: init_processor_def)
  then have "0.3 \<le> brightness_level (fold handle_key keys init_processor)
      \<and> brightness_level (fold handle_key keys init_processor) \<le> 2.0"
    by (rule fold_handle_key_range)
  with a show ?thesis by simp
qed

theorem brightness_stays_clamped_witness:
  "brightness (fold apply_gesture (replicate 7 brightness_up) init_dual_window) = 2.0
   \<and> brightness (fold apply_gesture (replicate 7 brightness_down) init_dual_window) = 0.2
   \<and> brightness_level (fold handle_key (replicate 12 Key_minus) init_processor) = 0.3"
  using brightness_stays_clamped [of "replicate 7 brightness_up" "replicate 12 Key_minus"]
  by (simp add: apply_gesture_def handle_key_def init_dual_window_def init_processor_def
      eval_nat_numeral)

section \<open>The debouncers\<close>

lemma spaced_later:
  "0 \<le> d \<Longrightarrow> spaced d t0 evs \<Longrightarrow> e \<in> set evs \<Longrightarrow> fst e - t0 > d"
proof (induction evs arbitrary: t0)
  case Nil
  then show ?case by simp
next
  case (Cons ev evs)
  show ?case
  proof (cases "e = ev")
    case True
    with Cons.prems show ?thesis by simp
  next
    case False
    with Cons.prems have "e \<in> set evs" and "spaced d (fst ev) evs" and "fst ev - t0 > d"
      by simp_all
    with Cons.IH [of "fst ev"] Cons.prems(1) have "fst e - fst ev > d" by blast
    with \<open>fst ev - t0 > d\<close> Cons.prems(1) show ?thesis by linarith
  qed
qed

lemma spaced_sorted_wrt:
  "0 \<le> d \<Longrightarrow> spaced d t0 evs \<Longrightarrow> sorted_wrt (\<lambda>a b. fst b - fst a > d) evs"
proof (induction evs arbitrary: t0)
  case Nil
  then show ?case by simp
next
  case (Cons ev evs)
  then have sp: "spaced d (fst ev) evs" by simp
  with Cons have "sorted_wrt (\<lambda>a b. fst b - fst a > d) evs" by blast
  moreover have "\<forall>e\<in>set evs. fst e - fst ev > d"
    using spaced_later [OF Cons.prems(1) sp] by blast
  ultimately show ?case by simp
qed

lemma spaced_nth:
  assumes "0 \<le> d" "spaced d t0 evs" "i < j" "j < length evs"
  shows "fst (evs ! j) - fst (evs ! i) > d"
proof -
  from assms(1,2) have "sorted_wrt (\<lambda>a b. fst b - fst a > d) evs"
    by (rule spaced_sorted_wrt)
  with assms(3,4) show ?thesis by (simp add: sorted_wrt_iff_nth_less)
qed

text \<open>\<open>dual_window_ascii.py\<close>: what one pass does to \<open>last_gesture_time\<close>.\<close>

lemma run_iteration_None:
  "run_iteration st fr = Inr (None, st') \<Longrightarrow> snd st' = snd st"
  by (auto simp: run_iteration_def Let_def split: if_splits sum.splits option.splits prod.splits)

lemma run_iteration_Some:
  "run_iteration st fr = Inr (Some ev, st') \<Longrightarrow>
     fst ev - snd st > gesture_cooldown \<and> snd st' = fst ev"
  by (auto simp: run_iteration_def Let_def split: if_splits sum.splits option.splits prod.splits)

lemma run_spaced: "spaced gesture_cooldown (snd st) (fst (run st frames))"
proof (induction frames arbitrary: st)
  case Nil
  show ?case by simp
next
  case (Cons fr frames)
  show ?case
  proof (cases "run_iteration st fr")
    case (Inl e)
    then show ?thesis by simp
  next
    case (Inr r)
    obtain ev st' where r: "r = (ev, st')" by (cases r)
    show ?thesis
    proof (cases ev)
      case None
      with Inr r have "snd st' = snd st" by (simp add: run_iteration_None)
      with Cons.IH [of st'] Inr r None show ?thesis by simp
    next
      case (Some e)
      with Inr r have "fst e - snd st > gesture_cooldown" "snd st' = fst e"
        by (simp_all add: run_iteration_Some)
      with Cons.IH [of st'] Inr r Some show ?thesis by simp
    qed
  qed
qed

text \<open>\<open>quick_gesture_test.py\<close>.\<close>

lemma quick_iteration_None:
  "quick_iteration st fr = Inr (None, st') \<Longrightarrow> snd st' = snd st"
  by (auto simp: quick_iteration_def Let_def split: if_splits sum.splits option.splits prod.splits)

lemma quick_iteration_Some:
  "quick_iteration st fr = Inr (Some ev, st') \<Longrightarrow> fst ev - snd st > 1 \<and> snd st' = fst ev"
  by (auto simp: quick_iteration_def Let_def split: if_splits sum.splits option.splits prod.splits)

lemma quick_run_spaced: "spaced 1 (snd st) (fst (quick_run st frames))"
proof (induction frames arbitrary: st)
  case Nil
  show ?case by simp
next
  case (Cons fr frames)
  show ?case
  proof (cases "quick_iteration st fr")
    case (Inl e)
    then show ?thesis by simp
  next
    case (Inr r)
    obtain ev st' where r: "r = (ev, st')" by (cases r)
    show ?thesis
    proof (cases ev)
      case None
      with Inr r have "snd st' = snd st" by (simp add: quick_iteration_None)
      with Cons.IH [of st'] Inr r None show ?thesis by simp
    next
      case (Some e)
      with Inr r have "fst e - snd st > 1" "snd st' = fst e"
        by (simp_all add: quick_iteration_Some)
      with Cons.IH [of st'] Inr r Some show ?thesis by simp
    qed
  qed
qed

text \<open>\<open>gesture_only.py\<close>: the inner loop, alone and followed by later events.\<close>

lemma control_hands_spaced:
  "spaced 1 (snd st) (fst (control_hands t hs st))"
proof (induction hs arbitrary: st)
  case Nil
  show ?case by simp
next
  case (Cons h hs)
  show ?case
    using Cons.IH [of st] Cons.IH [of "(min 2.0 (fst st + 0.2), t)"]
      Cons.IH [of "(max 0.2 (fst st - 0.2), t)"]
    by (simp split: sum.splits bool.splits)
qed

lemma control_hands_then:
  "snd (control_hands t hs st) = Inr st' \<Longrightarrow> spaced 1 (snd st') later \<Longrightarrow>
     spaced 1 (snd st) (fst (control_hands t hs st) @ later)"
proof (induction hs arbitrary: st)
  case Nil
  then show ?case by simp
next
  case (Cons h hs)
  show ?case
    using Cons.prems Cons.IH [of st] Cons.IH [of "(min 2.0 (fst st + 0.2), t)"]
      Cons.IH [of "(max 0.2 (fst st - 0.2), t)"]
    by (simp split: sum.splits bool.splits if_splits)
qed

lemma control_run_spaced: "spaced 1 (snd st) (fst (control_run st frames))"
proof (induction frames arbitrary: st)
  case Nil
  show ?case by simp
next
  case (Cons fr frames)
  obtain evs r where c: "control_hands (fst fr) (snd fr) st = (evs, r)"
    by (cases "control_hands (fst fr) (snd fr) st")
  show ?case
  proof (cases r)
    case (Inl e)
    with c control_hands_spaced [of st "fst fr" "snd fr"] show ?thesis by simp
  next
    case (Inr st')
    with c have "snd (control_hands (fst fr) (snd fr) st) = Inr st'" by simp
    from control_hands_then [OF this Cons.IH [of st']] c Inr show ?thesis by simp
  qed
qed

text \<open>One pass of either buffered loop, once the classification of the frame is known.\<close>

lemma run_iteration_classified:
  assumes "classify_hands hs None = Inr cur" and "gesture_cooldown < t - t0"
  shows "run_iteration (self, t0) (t, hs) =
     (case stable_in 2 (push_gesture (buffer_size self) (gesture_buffer self) cur) of
        None \<Rightarrow>
          Inr (None,
               self\<lparr>gesture_buffer := push_gesture (buffer_size self) (gesture_buffer self) cur\<rparr>,
               t0)
      | Some g \<Rightarrow>
          Inr (Some (t, g),
               apply_gesture g
                 (self\<lparr>gesture_buffer := push_gesture (buffer_size self) (gesture_buffer self) cur\<rparr>),
               t))"
  using assms by (simp add: run_iteration_def detect_gestures_def Let_def split: option.splits)

lemma quick_iteration_classified:
  assumes "quick_current_gesture hs None = Inr cur"
  shows "quick_iteration (self, t0) (t, hs) =
     (case stable_in 3 (push_gesture (quick_buffer_size self) (quick_buffer self) cur) of
        None \<Rightarrow>
          Inr (None,
               self\<lparr>quick_buffer := push_gesture (quick_buffer_size self) (quick_buffer self) cur\<rparr>,
               t0)
      | Some g \<Rightarrow>
          if t - t0 > 1 then
            Inr (Some (t, g),
               self\<lparr>quick_buffer := push_gesture (quick_buffer_size self) (quick_buffer self) cur,
                  quick_brightness :=
                    (if g = thumbs_up then min 2.0 (quick_brightness self + 0.2)
                     else max 0.2 (quick_brightness self - 0.2))\<rparr>,
               t)
          else
            Inr (None,
               self\<lparr>quick_buffer := push_gesture (quick_buffer_size self) (quick_buffer self) cur\<rparr>,
               t0))"
  using assms by (simp add: quick_iteration_def Let_def split: option.splits)

text \<open>
  Claim C4. In the list of events a run confirms, any two are more than the cooldown
  apart: the later of two events (position \<open>j\<close> after position \<open>i\<close>) comes more than
  0.5 s after the earlier in \<open>dual_window_ascii.py\<close>, and more than 1 s after it in
  \<open>quick_gesture_test.py\<close> and \<open>gesture_only.py\<close>. This holds from every state, for every
  list of frames and every clock reading, monotone or not.
\<close>

theorem events_cooldown_apart:
  "(i < j \<and> j < length (fst (run st frames)) \<longrightarrow>
      fst (fst (run st frames) ! j) - fst (fst (run st frames) ! i) > gesture_cooldown)
   \<and> (i < j \<and> j < length (fst (quick_run qst frames)) \<longrightarrow>
      fst (fst (quick_run qst frames) ! j) - fst (fst (quick_run qst frames) ! i) > 1)
   \<and> (i < j \<and> j < length (fst (control_run cst frames)) \<longrightarrow>
      fst (fst (control_run cst frames) ! j) - fst (fst (control_run cst frames) ! i) > 1)"
proof (intro conjI impI)
  have c: "0 \<le> gesture_cooldown" by (simp add: gesture_cooldown_def)
  assume "i < j \<and> j < length (fst (run st frames))"
  then show "fst (fst (run st frames) ! j) - fst (fst (run st frames) ! i) > gesture_cooldown"
    using spaced_nth [OF c run_spaced] by blast
next
  have one: "(0::real) \<le> 1" by simp
  assume "i < j \<and> j < length (fst (quick_run qst frames))"
  then show "fst (fst (quick_run qst frames) ! j) - fst (fst (quick_run qst frames) ! i) > 1"
    using spaced_nth [OF one quick_run_spaced] by blast
next
  have one: "(0::real) \<le> 1" by simp
  assume "i < j \<and> j < length (fst (control_run cst frames))"
  then show
    "fst (fst (control_run cst frames) ! j) - fst (fst (control_run cst frames) ! i) > 1"
    using spaced_nth [OF one control_run_spaced] by blast
qed

lemma run_four_frames:
  "fst (run (init_dual_window, 0)
      [(1, [peace_hand]), (2, [fist_hand]), (3, [fist_hand]), (4, [fist_hand])])
     = [(3, reset), (4, reset)]"
  by (simp add: run_iteration_classified [OF classify_peace_hand]
      run_iteration_classified [OF classify_fist_hand]
      push_gesture_def stable_in_def gesture_cooldown_def init_dual_window_def apply_gesture_def
      del: classify_hands.simps)

lemma quick_run_five_frames:
  "fst (quick_run (init_quick, 0)
      [(10, [thumbs_up_hand]), (11, [thumbs_up_hand]), (12, [thumbs_up_hand]),
       (13, [thumbs_up_hand]), (14, [thumbs_up_hand])])
     = [(12, thumbs_up), (14, thumbs_up)]"
  by (simp add: quick_iteration_classified [OF quick_thumbs_up_hand]
      push_gesture_def stable_in_def init_quick_def
      del: quick_current_gesture.simps)

lemma control_run_three_frames:
  "fst (control_run (1, 0)
      [(10, [thumbs_up_hand]), (11, [thumbs_up_hand]), (12, [thumbs_down_hand])])
     = [(10, thumbs_up), (12, thumbs_down)]"
  by (simp add: is_thumb_up_def is_thumb_down_def thumbs_up_hand_def thumbs_down_hand_def
      hand_of_ys_def)

theorem events_cooldown_apart_witness:
  "fst (run (init_dual_window, 0)
      [(1, [peace_hand]), (2, [fist_hand]), (3, [fist_hand]), (4, [fist_hand])])
     = [(3, reset), (4, reset)]
   \<and> (4::real) - 3 > gesture_cooldown
   \<and> fst (quick_run (init_quick, 0)
      [(10, [thumbs_up_hand]), (11, [thumbs_up_hand]), (12, [thumbs_up_hand]),
       (13, [thumbs_up_hand]), (14, [thumbs_up_hand])])
     = [(12, thumbs_up), (14, thumbs_up)]
   \<and> fst (control_run (1, 0)
      [(10, [thumbs_up_hand]), (11, [thumbs_up_hand]), (12, [thumbs_down_hand])])
     = [(10, thumbs_up), (12, thumbs_down)]"
  using events_cooldown_apart [of 0 1 "(init_dual_window, 0)"
      "[(1, [peace_hand]), (2, [fist_hand]), (3, [fist_hand]), (4, [fist_hand])]"
      "(init_quick, 0)" "(1, 0)"]
  by (simp only: run_four_frames quick_run_five_frames control_run_three_frames) simp


text \<open>The buffer test: what a result other than \<open>None\<close> says about the buffer.\<close>

lemma all_equal_replicate:
  "list_all (\<lambda>g. g = h \<and> g \<noteq> None) xs \<Longrightarrow> xs = replicate (length xs) h"
  by (induction xs) simp_all

lemma stable_in_Some:
  assumes "stable_in n buffer = Some g" and "0 < n"
  shows "n \<le> length buffer \<and> drop (length buffer - n) buffer = replicate n (Some g)"
proof -
  let ?recent = "drop (length buffer - n) buffer"
  from assms(1) have len: "n \<le> length buffer"
    by (simp add: stable_in_def split: if_splits)
  with assms(1) have all: "list_all (\<lambda>g. g = hd ?recent \<and> g \<noteq> None) ?recent"
    and hd: "hd ?recent = Some g"
    by (simp_all add: stable_in_def Let_def split: if_splits)
  from len have "length ?recent = n" by simp
  with all_equal_replicate [OF all] hd have "?recent = replicate n (Some g)" by simp
  with len show ?thesis by simp
qed

lemma apply_gesture_buffer: "gesture_buffer (apply_gesture g self) = gesture_buffer self"
  by (cases g) (simp_all add: apply_gesture_def)

lemma run_iteration_confirmed:
  assumes "run_iteration st fr = Inr (Some (t, g), st')"
  shows "stable_in 2 (gesture_buffer (fst st')) = Some g"
  using assms
  by (auto simp: run_iteration_def detect_gestures_def Let_def apply_gesture_buffer
      split: if_splits sum.splits option.splits prod.splits)

lemma quick_iteration_confirmed:
  assumes "quick_iteration st fr = Inr (Some (t, g), st')"
  shows "stable_in 3 (quick_buffer (fst st')) = Some g"
  using assms
  by (auto simp: quick_iteration_def Let_def
      split: if_splits sum.splits option.splits prod.splits)

lemma two_identical_fire_once:
  assumes c1: "classify_hands hands1 None = Inr (Some g)"
    and c2: "classify_hands hands2 None = Inr (Some g)"
    and t1: "gesture_cooldown < t1" and t2: "t1 \<le> t2"
    and k: "2 \<le> buffer_size self" and fresh: "gesture_buffer self = []"
  shows "fst (run (self, 0) [(t1, hands1), (t2, hands2)]) = [(t2, g)]"
proof -
  have a: "gesture_cooldown < t1 - 0" using t1 by simp
  have b: "gesture_cooldown < t2 - 0" using t1 t2 by simp
  have first: "run_iteration (self, 0) (t1, hands1)
      = Inr (None, self\<lparr>gesture_buffer := [Some g]\<rparr>, 0)"
    using k fresh
    by (simp add: run_iteration_classified [OF c1 a] push_gesture_def stable_in_def)
  have second: "run_iteration (self\<lparr>gesture_buffer := [Some g]\<rparr>, 0) (t2, hands2)
      = Inr (Some (t2, g), apply_gesture g (self\<lparr>gesture_buffer := [Some g, Some g]\<rparr>), t2)"
    using k
    by (simp add: run_iteration_classified [OF c2 b] push_gesture_def stable_in_def)
  show ?thesis by (simp add: first second)
qed

lemma three_identical_fire_once:
  assumes c1: "quick_current_gesture hands1 None = Inr (Some q)"
    and c2: "quick_current_gesture hands2 None = Inr (Some q)"
    and c3: "quick_current_gesture hands3 None = Inr (Some q)"
    and t3: "1 < t3"
    and k: "3 \<le> quick_buffer_size self" and fresh: "quick_buffer self = []"
  shows "fst (quick_run (self, 0) [(t1, hands1), (t2, hands2), (t3, hands3)]) = [(t3, q)]"
proof -
  have first: "quick_iteration (self, 0) (t1, hands1)
      = Inr (None, self\<lparr>quick_buffer := [Some q]\<rparr>, 0)"
    using k fresh
    by (simp add: quick_iteration_classified [OF c1] push_gesture_def stable_in_def)
  have second: "quick_iteration (self\<lparr>quick_buffer := [Some q]\<rparr>, 0) (t2, hands2)
      = Inr (None, self\<lparr>quick_buffer := [Some q, Some q]\<rparr>, 0)"
    using k
    by (simp add: quick_iteration_classified [OF c2] push_gesture_def stable_in_def)
  have "\<exists>st'. quick_iteration (self\<lparr>quick_buffer := [Some q, Some q]\<rparr>, 0) (t3, hands3)
      = Inr (Some (t3, q), st')"
    using k t3
    by (simp add: quick_iteration_classified [OF c3] push_gesture_def stable_in_def)
  then obtain st' where
    "quick_iteration (self\<lparr>quick_buffer := [Some q, Some q]\<rparr>, 0) (t3, hands3)
      = Inr (Some (t3, q), st')"
    by blast
  then show ?thesis by (simp add: first second)
qed

text \<open>
  Claim C5. A fresh debouncer has an empty buffer and \<open>last_gesture_time = 0\<close>. The
  clock is \<open>time.time()\<close>, seconds since 1970, so a reading is above the cooldown, and
  readings do not decrease; no more is asked of the frame times. In
  \<open>dual_window_ascii.py\<close> (two equal entries needed, buffer capacity at least 2), two
  consecutive frames classified to the same symbol \<open>g\<close> confirm exactly one event,
  \<open>g\<close> at the second frame. In \<open>quick_gesture_test.py\<close> (three needed, capacity at least
  3), three consecutive frames with the same symbol \<open>q\<close> confirm exactly one event,
  \<open>q\<close> at the third frame.
\<close>

theorem identical_symbols_fire_once:
  "(classify_hands hands1 None = Inr (Some g) \<and> classify_hands hands2 None = Inr (Some g)
      \<and> gesture_cooldown < t1 \<and> t1 \<le> t2
      \<and> 2 \<le> buffer_size self \<and> gesture_buffer self = []
    \<longrightarrow> fst (run (self, 0) [(t1, hands1), (t2, hands2)]) = [(t2, g)])
   \<and> (quick_current_gesture hands1 None = Inr (Some q)
      \<and> quick_current_gesture hands2 None = Inr (Some q)
      \<and> quick_current_gesture hands3 None = Inr (Some q)
      \<and> 1 < t3
      \<and> 3 \<le> quick_buffer_size qself \<and> quick_buffer qself = []
    \<longrightarrow> fst (quick_run (qself, 0) [(t1, hands1), (t2, hands2), (t3, hands3)]) = [(t3, q)])"
proof (intro conjI impI)
  assume "classify_hands hands1 None = Inr (Some g) \<and> classify_hands hands2 None = Inr (Some g)
      \<and> gesture_cooldown < t1 \<and> t1 \<le> t2
      \<and> 2 \<le> buffer_size self \<and> gesture_buffer self = []"
  then show "fst (run (self, 0) [(t1, hands1), (t2, hands2)]) = [(t2, g)]"
    by (intro two_identical_fire_once) simp_all
next
  assume "quick_current_gesture hands1 None = Inr (Some q)
      \<and> quick_current_gesture hands2 None = Inr (Some q)
      \<and> quick_current_gesture hands3 None = Inr (Some q)
      \<and> 1 < t3
      \<and> 3 \<le> quick_buffer_size qself \<and> quick_buffer qself = []"
  then show "fst (quick_run (qself, 0) [(t1, hands1), (t2, hands2), (t3, hands3)]) = [(t3, q)]"
    by (intro three_identical_fire_once) simp_all
qed

theorem identical_symbols_fire_once_witness:
  "fst (run (init_dual_window, 0) [(1000, [thumbs_up_hand]), (1000.25, [thumbs_up_hand])])
     = [(1000.25, brightness_up)]
   \<and> fst (quick_run (init_quick, 0)
       [(1000, [thumbs_up_hand]), (1000.25, [thumbs_up_hand]), (1000.5, [thumbs_up_hand])])
     = [(1000.5, thumbs_up)]"
  using identical_symbols_fire_once [of "[thumbs_up_hand]" brightness_up "[thumbs_up_hand]"
      1000 "1000.25" init_dual_window thumbs_up "[thumbs_up_hand]" "1000.5" init_quick]
    classify_thumbs_up_hand quick_thumbs_up_hand
  by (simp add: gesture_cooldown_def init_dual_window_def init_quick_def
      del: classify_hands.simps quick_current_gesture.simps)

text \<open>
  Claim C6, as amended. The test is on the newest entries only, not on the whole
  buffer. When a pass of \<open>dual_window_ascii.py\<close> confirms \<open>g\<close>, the buffer holds at
  least two entries and its two newest are both \<open>g\<close>; when a pass of
  \<open>quick_gesture_test.py\<close> confirms \<open>q\<close>, the buffer holds at least three entries and
  its three newest are all \<open>q\<close>. The older entries (one of three, two of five) are not
  looked at.
\<close>

theorem confirmed_means_newest_entries_equal:
  "(run_iteration st fr = Inr (Some (t, g), st') \<longrightarrow>
      2 \<le> length (gesture_buffer (fst st'))
      \<and> drop (length (gesture_buffer (fst st')) - 2) (gesture_buffer (fst st'))
          = [Some g, Some g])
   \<and> (quick_iteration qst fr = Inr (Some (t, q), qst') \<longrightarrow>
      3 \<le> length (quick_buffer (fst qst'))
      \<and> drop (length (quick_buffer (fst qst')) - 3) (quick_buffer (fst qst'))
          = [Some q, Some q, Some q])"
proof (intro conjI impI)
  assume "run_iteration st fr = Inr (Some (t, g), st')"
  then have "stable_in 2 (gesture_buffer (fst st')) = Some g"
    by (rule run_iteration_confirmed)
  from stable_in_Some [OF this]
  show "2 \<le> length (gesture_buffer (fst st'))"
    and "drop (length (gesture_buffer (fst st')) - 2) (gesture_buffer (fst st'))
          = [Some g, Some g]"
    by (simp_all add: eval_nat_numeral)
next
  assume "quick_iteration qst fr = Inr (Some (t, q), qst')"
  then have "stable_in 3 (quick_buffer (fst qst')) = Some q"
    by (rule quick_iteration_confirmed)
  from stable_in_Some [OF this]
  show "3 \<le> length (quick_buffer (fst qst'))"
    and "drop (length (quick_buffer (fst qst')) - 3) (quick_buffer (fst qst'))
          = [Some q, Some q, Some q]"
    by (simp_all add: eval_nat_numeral)
qed

lemma run_iteration_third_frame:
  "run_iteration
     (init_dual_window\<lparr>gesture_buffer := [Some toggle_hands, Some reset]\<rparr>, 0) (3, [fist_hand])
   = Inr (Some (3, reset),
          init_dual_window\<lparr>gesture_buffer := [Some toggle_hands, Some reset, Some reset]\<rparr>, 3)"
  by (simp add: run_iteration_classified [OF classify_fist_hand]
      push_gesture_def stable_in_def gesture_cooldown_def init_dual_window_def apply_gesture_def
      del: classify_hands.simps)

lemma quick_iteration_third_frame:
  "quick_iteration
     (init_quick\<lparr>quick_buffer := [None, Some thumbs_up, Some thumbs_up]\<rparr>, 0)
     (3, [thumbs_up_hand])
   = Inr (Some (3, thumbs_up),
          init_quick\<lparr>quick_buffer := [None, Some thumbs_up, Some thumbs_up, Some thumbs_up],
            quick_brightness := 1.2\<rparr>, 3)"
  by (simp add: quick_iteration_classified [OF quick_thumbs_up_hand]
      push_gesture_def stable_in_def init_quick_def
      del: quick_current_gesture.simps)

theorem confirmed_means_newest_entries_equal_witness:
  "run_iteration
     (init_dual_window\<lparr>gesture_buffer := [Some toggle_hands, Some reset]\<rparr>, 0) (3, [fist_hand])
   = Inr (Some (3, reset),
          init_dual_window\<lparr>gesture_buffer := [Some toggle_hands, Some reset, Some reset]\<rparr>, 3)
   \<and> drop 1 [Some toggle_hands, Some reset, Some reset] = [Some reset, Some reset]
   \<and> quick_iteration
     (init_quick\<lparr>quick_buffer := [None, Some thumbs_up, Some thumbs_up]\<rparr>, 0)
     (3, [thumbs_up_hand])
   = Inr (Some (3, thumbs_up),
          init_quick\<lparr>quick_buffer := [None, Some thumbs_up, Some thumbs_up, Some thumbs_up],
            quick_brightness := 1.2\<rparr>, 3)
   \<and> drop 1 [None, Some thumbs_up, Some thumbs_up, Some thumbs_up]
       = [Some thumbs_up, Some thumbs_up, Some thumbs_up]"
  using confirmed_means_newest_entries_equal
    [of "(init_dual_window\<lparr>gesture_buffer := [Some toggle_hands, Some reset]\<rparr>, 0)"
      "(3, [fist_hand])" 3 reset
      "(init_dual_window\<lparr>gesture_buffer := [Some toggle_hands, Some reset, Some reset]\<rparr>, 3)"
      "(init_quick\<lparr>quick_buffer := [None, Some thumbs_up, Some thumbs_up]\<rparr>, 0)"
      thumbs_up
      "(init_quick\<lparr>quick_buffer := [None, Some thumbs_up, Some thumbs_up, Some thumbs_up],
            quick_brightness := 1.2\<rparr>, 3)"]
  by (simp only: run_iteration_third_frame quick_iteration_third_frame) simp

text \<open>
  Claim C6 as it is stated fails. From the initial state of \<open>dual_window_ascii.py\<close>, a
  peace sign and then two fists confirm \<open>reset\<close> at the third frame, while the buffer,
  full at its capacity 3, is \<open>[toggle_hands, reset, reset]\<close>: its entries are not all
  equal.
\<close>

theorem mixed_buffer_counterexample:
  "run (init_dual_window, 0) [(1, [peace_hand]), (2, [fist_hand]), (3, [fist_hand])]
     = ([(3, reset)],
        Inr (init_dual_window\<lparr>gesture_buffer := [Some toggle_hands, Some reset, Some reset]\<rparr>,
             3))
   \<and> buffer_size init_dual_window = 3
   \<and> Some toggle_hands \<noteq> Some reset"
  by (simp add: run_iteration_classified [OF classify_peace_hand]
      run_iteration_classified [OF classify_fist_hand]
      push_gesture_def stable_in_def gesture_cooldown_def init_dual_window_def apply_gesture_def
      del: classify_hands.simps)


end
